theory Spec2Isabelle
  imports Complex_Main "HOL-Library.Word"
begin

unbundle bit_operations_syntax

section \<open>Python exceptions\<close>

text \<open>
  The exceptions the modelled functions can raise.  A raise is a value: \<open>Inl e\<close> of a
  result \<open>py_error + 'a\<close>.
\<close>

datatype py_error =
    NameError string
  | UnboundLocalError string
  | TypeError string
  | ValueError string
  | KeyError string

section \<open>Oracle (kerastuner/engine/oracle.py)\<close>

text \<open>
  A hyperparameter is known to the oracle by its \<open>name\<close>; everything else it carries
  (kind, domain, default) is the payload \<open>hp_spec\<close>.
\<close>

record 'a hyperparameter =
  name :: string
  hp_spec :: 'a

record 'a Oracle =
  space :: "'a hyperparameter list"

text \<open>
  \<^verbatim>\<open>
  def update_space(self, new_entries):
      ref_names = {p.name for p in self.space}
      for p in new_entries:
          if p.name not in ref_names:
              self.space.append(p)
  \<close>
  \<open>ref_names\<close> is computed once, before the loop, and is not extended by the loop.
\<close>

definition update_space :: "'a Oracle \<Rightarrow> 'a hyperparameter list \<Rightarrow> 'a Oracle" where
  "update_space self new_entries =
     (let ref_names = set (map name (space self))
      in fold (\<lambda>p self. if name p \<notin> ref_names
                          then self\<lparr>space := space self @ [p]\<rparr>
                          else self)
           new_entries self)"

section \<open>Batch size estimation (kerastuner/utils.py)\<close>

text \<open>
  What \<open>utils.py\<close> reads of a Keras model: the output shape of every layer (a dimension is
  \<open>None\<close> or an integer) and the weight tensors.  A weight is an object with an identity
  \<open>wid\<close>; \<open>K.count_params\<close> reads its number of scalars.  Python floats are modelled by
  reals.
\<close>

record layer =
  output_shape :: "int option list"

record weight =
  wid :: nat
  count_params :: int

record keras_layers =
  layers :: "layer list"
  trainable_weights :: "weight list"
  non_trainable_weights :: "weight list"

text \<open>\<open>np.round(x, 3)\<close>: three decimals, ties to the even neighbour.\<close>

definition round_half_even :: "real \<Rightarrow> int" where
  "round_half_even y =
     (let f = \<lfloor>y\<rfloor>; d = y - of_int f
      in if d < 1 / 2 then f
         else if 1 / 2 < d then f + 1
         else if even f then f else f + 1)"

definition np_round3 :: "real \<Rightarrow> real" where
  "np_round3 x = of_int (round_half_even (x * 1000)) / 1000"

text \<open>
  \<^verbatim>\<open>
  for l in model.layers:
      single_layer_mem = 1
      for s in l.output_shape:
          if s is None:
              continue
          single_layer_mem *= s
      shapes_mem_count += single_layer_mem
  \<close>
\<close>

definition single_layer_mem :: "layer \<Rightarrow> int" where
  "single_layer_mem l =
     fold (\<lambda>s acc. case s of None \<Rightarrow> acc | Some d \<Rightarrow> acc * d) (output_shape l) 1"

definition shapes_mem_count :: "keras_layers \<Rightarrow> int" where
  "shapes_mem_count model = fold (\<lambda>l acc. acc + single_layer_mem l) (layers model) 0"

text \<open>\<open>np.sum([K.count_params(p) for p in set(ws)])\<close>: every weight object once.\<close>

definition count_weights :: "weight list \<Rightarrow> int" where
  "count_weights ws = sum_list (map count_params (remdups ws))"

definition get_model_memory_usage :: "keras_layers \<Rightarrow> int \<Rightarrow> real \<times> int" where
  "get_model_memory_usage model batch_size =
     (let trainable_count = count_weights (trainable_weights model);
          non_trainable_count = count_weights (non_trainable_weights model);
          total_memory = 4 * of_int batch_size *
             of_int (shapes_mem_count model + trainable_count + non_trainable_count);
          gbytes = np_round3 (total_memory / (1024 ^ 3))
      in (gbytes, trainable_count))"

text \<open>
  \<^verbatim>\<open>
  batch_size = 16
  while 1:
      bs = batch_size + 2
      if bs >= max_size:
          break
      memory_needed, model_num_params = __get_model_memory_usage(model, bs)
      if memory_needed > memory:
          break
      batch_size = bs
  return batch_size, model_num_params
  \<close>
  \<open>model_num_params\<close> is a local that the first pass of the loop may leave unbound; the
  \<open>return\<close> then raises \<open>UnboundLocalError\<close>.  The loop state is \<open>batch_size\<close> and the
  binding of \<open>model_num_params\<close>.
\<close>

definition return_batch_size :: "int \<Rightarrow> int option \<Rightarrow> py_error + int \<times> int" where
  "return_batch_size batch_size model_num_params =
     (case model_num_params of
        None \<Rightarrow> Inl (UnboundLocalError ''model_num_params'')
      | Some n \<Rightarrow> Inr (batch_size, n))"

function compute_batch_size_loop ::
  "keras_layers \<Rightarrow> real \<Rightarrow> int \<Rightarrow> int \<Rightarrow> int option \<Rightarrow> py_error + int \<times> int" where
  "compute_batch_size_loop model memory max_size batch_size model_num_params =
     (let bs = batch_size + 2
      in if max_size \<le> bs then return_batch_size batch_size model_num_params
         else let (memory_needed, n) = get_model_memory_usage model bs
              in if memory < memory_needed then return_batch_size batch_size (Some n)
                 else compute_batch_size_loop model memory max_size bs (Some n))"
  by pat_completeness auto
termination
  by (relation "measure (\<lambda>(model, memory, max_size, batch_size, n). nat (max_size - batch_size))")
     auto

definition compute_batch_size :: "keras_layers \<Rightarrow> real \<Rightarrow> int \<Rightarrow> py_error + int \<times> int" where
  "compute_batch_size model memory max_size =
     compute_batch_size_loop model memory max_size 16 None"

text \<open>
  \<^verbatim>\<open>
  def compute_max_batch_size(model, gpu_mem, max_size=8000):
      batch_size, num_params = __compute_batch_size(model, gpu_mem, max_size)
  \<close>
  The body ends without a \<open>return\<close>: the value of a call that does not raise is Python's
  \<open>None\<close>, written \<open>Inr None\<close>; \<open>Inr (Some b)\<close> would be a returned batch size.
\<close>

definition compute_max_batch_size ::
  "keras_layers \<Rightarrow> real \<Rightarrow> int \<Rightarrow> py_error + int option" where
  "compute_max_batch_size model gpu_mem max_size =
     (case compute_batch_size model gpu_mem max_size of
        Inl e \<Rightarrow> Inl e
      | Inr (batch_size, num_params) \<Rightarrow> Inr None)"

definition default_max_size :: int where
  "default_max_size = 8000"

section \<open>Python values and their printed form\<close>

text \<open>
  What \<open>model.get_config()\<close> returns: a dictionary with string keys whose values are
  \<open>None\<close>, booleans, integers, strings, lists, tuples and dictionaries again.  A dictionary
  keeps its entries in insertion order, which is the order \<open>str\<close> prints them in.
  Strings are ASCII; floats are not modelled.
\<close>

datatype pyval =
    PyNone
  | PyBool bool
  | PyInt int
  | PyStr string
  | PyList "pyval list"
  | PyTuple "pyval list"
  | PyDict "(string \<times> pyval) list"

function nat_digits :: "nat \<Rightarrow> string" where
  "nat_digits n =
     (if n < 10 then [''0123456789'' ! n]
      else nat_digits (n div 10) @ [''0123456789'' ! (n mod 10)])"
  by pat_completeness auto
termination
  by (relation "measure id") auto

definition py_repr_int :: "int \<Rightarrow> string" where
  "py_repr_int i = (if i < 0 then ''-'' @ nat_digits (nat (- i)) else nat_digits (nat i))"

definition hex2 :: "nat \<Rightarrow> string" where
  "hex2 n = [''0123456789abcdef'' ! (n div 16 mod 16), ''0123456789abcdef'' ! (n mod 16)]"

text \<open>
  \<open>repr\<close> of a string: single quotes, unless the string holds a single quote and no double
  quote; the backslash, the chosen quote and the control characters are escaped.
\<close>

definition escape_char :: "char \<Rightarrow> char \<Rightarrow> string" where
  "escape_char q c =
     (if c = CHR 0x5C then [CHR 0x5C, CHR 0x5C]
      else if c = q then [CHR 0x5C, q]
      else if c = CHR 0x0A then [CHR 0x5C, CHR ''n'']
      else if c = CHR 0x0D then [CHR 0x5C, CHR ''r'']
      else if c = CHR 0x09 then [CHR 0x5C, CHR ''t'']
      else if (of_char c :: nat) < 32 \<or> 127 \<le> (of_char c :: nat)
        then [CHR 0x5C, CHR ''x''] @ hex2 (of_char c)
      else [c])"

definition py_repr_str :: "string \<Rightarrow> string" where
  "py_repr_str s =
     (let q = (if CHR 0x27 \<in> set s \<and> CHR 0x22 \<notin> set s then CHR 0x22 else CHR 0x27)
      in [q] @ concat (map (escape_char q) s) @ [q])"

fun join :: "string \<Rightarrow> string list \<Rightarrow> string" where
  "join sep [] = []"
| "join sep [x] = x"
| "join sep (x # y # ys) = x @ sep @ join sep (y # ys)"

fun py_repr :: "pyval \<Rightarrow> string" where
  "py_repr PyNone = ''None''"
| "py_repr (PyBool b) = (if b then ''True'' else ''False'')"
| "py_repr (PyInt i) = py_repr_int i"
| "py_repr (PyStr s) = py_repr_str s"
| "py_repr (PyList xs) = ''['' @ join '', '' (map py_repr xs) @ '']''"
| "py_repr (PyTuple xs) =
     (case xs of
        [x] \<Rightarrow> ''('' @ py_repr x @ '',)''
      | _ \<Rightarrow> ''('' @ join '', '' (map py_repr xs) @ '')'')"
| "py_repr (PyDict kvs) =
     ''{'' @ join '', '' (map (\<lambda>kv. py_repr_str (fst kv) @ '': '' @ py_repr (snd kv)) kvs)
       @ ''}''"

definition py_str :: "pyval \<Rightarrow> string" where
  "py_str v = (case v of PyStr s \<Rightarrow> s | _ \<Rightarrow> py_repr v)"

section \<open>The xxhash library: XXH64 with seed 0\<close>

text \<open>
  \<open>xxh64(data).hexdigest()\<close> of the \<open>xxhash\<close> package the tuner imports: the 64-bit XXH64
  digest of the bytes of \<open>data\<close>, printed as sixteen lowercase hexadecimal digits, most
  significant first.  All arithmetic is modulo \<open>2 ^ 64\<close>.
\<close>

type_synonym u64 = "64 word"

definition PRIME64_1 :: u64 where "PRIME64_1 = 0x9E3779B185EBCA87"
definition PRIME64_2 :: u64 where "PRIME64_2 = 0xC2B2AE3D27D4EB4F"
definition PRIME64_3 :: u64 where "PRIME64_3 = 0x165667B19E3779F9"
definition PRIME64_4 :: u64 where "PRIME64_4 = 0x85EBCA77C2B2AE63"
definition PRIME64_5 :: u64 where "PRIME64_5 = 0x27D4EB2F165667C5"

definition rotl64 :: "u64 \<Rightarrow> nat \<Rightarrow> u64" where
  "rotl64 x r = push_bit r x OR drop_bit (64 - r) x"

text \<open>The little-endian value of up to eight bytes.\<close>

definition read_le :: "string \<Rightarrow> u64" where
  "read_le cs = foldr (\<lambda>c acc. of_char c + push_bit 8 acc) cs 0"

definition xxh64_round :: "u64 \<Rightarrow> u64 \<Rightarrow> u64" where
  "xxh64_round acc inp = rotl64 (acc + inp * PRIME64_2) 31 * PRIME64_1"

definition xxh64_merge_round :: "u64 \<Rightarrow> u64 \<Rightarrow> u64" where
  "xxh64_merge_round acc v = (acc XOR xxh64_round 0 v) * PRIME64_1 + PRIME64_4"

function xxh64_stripes ::
  "u64 \<times> u64 \<times> u64 \<times> u64 \<Rightarrow> string \<Rightarrow> (u64 \<times> u64 \<times> u64 \<times> u64) \<times> string" where
  "xxh64_stripes (v1, v2, v3, v4) cs =
     (if length cs < 32 then ((v1, v2, v3, v4), cs)
      else xxh64_stripes
             (xxh64_round v1 (read_le (take 8 cs)),
              xxh64_round v2 (read_le (take 8 (drop 8 cs))),
              xxh64_round v3 (read_le (take 8 (drop 16 cs))),
              xxh64_round v4 (read_le (take 8 (drop 24 cs))))
             (drop 32 cs))"
  by pat_completeness auto
termination
  by (relation "measure (\<lambda>(v, cs). length cs)") auto

function xxh64_tail8 :: "u64 \<Rightarrow> string \<Rightarrow> u64 \<times> string" where
  "xxh64_tail8 h cs =
     (if length cs < 8 then (h, cs)
      else xxh64_tail8
             (rotl64 (h XOR xxh64_round 0 (read_le (take 8 cs))) 27 * PRIME64_1 + PRIME64_4)
             (drop 8 cs))"
  by pat_completeness auto
termination
  by (relation "measure (\<lambda>(h, cs). length cs)") auto

definition xxh64_tail4 :: "u64 \<Rightarrow> string \<Rightarrow> u64 \<times> string" where
  "xxh64_tail4 h cs =
     (if length cs < 4 then (h, cs)
      else (rotl64 (h XOR read_le (take 4 cs) * PRIME64_1) 23 * PRIME64_2 + PRIME64_3,
            drop 4 cs))"

definition xxh64_tail1 :: "u64 \<Rightarrow> string \<Rightarrow> u64" where
  "xxh64_tail1 h cs = fold (\<lambda>c h. rotl64 (h XOR read_le [c] * PRIME64_5) 11 * PRIME64_1) cs h"

definition xxh64_avalanche :: "u64 \<Rightarrow> u64" where
  "xxh64_avalanche h =
     (let h = (h XOR drop_bit 33 h) * PRIME64_2;
          h = (h XOR drop_bit 29 h) * PRIME64_3
      in h XOR drop_bit 32 h)"

definition xxh64 :: "string \<Rightarrow> u64" where
  "xxh64 cs =
     (let seed = 0;
          h = (if 32 \<le> length cs
               then let ((v1, v2, v3, v4), rest) =
                          xxh64_stripes (seed + PRIME64_1 + PRIME64_2, seed + PRIME64_2,
                                         seed, seed - PRIME64_1) cs;
                        h = rotl64 v1 1 + rotl64 v2 7 + rotl64 v3 12 + rotl64 v4 18
                    in xxh64_merge_round (xxh64_merge_round
                         (xxh64_merge_round (xxh64_merge_round h v1) v2) v3) v4
               else seed + PRIME64_5);
          h = h + word_of_nat (length cs);
          rest = drop (32 * (length cs div 32)) cs;
          (h, rest) = xxh64_tail8 h rest;
          (h, rest) = xxh64_tail4 h rest
      in xxh64_avalanche (xxh64_tail1 h rest))"

definition hexdigest :: "u64 \<Rightarrow> string" where
  "hexdigest h =
     map (\<lambda>i. ''0123456789abcdef'' ! unat (drop_bit (4 * i) h AND 0xF)) (rev [0..<16])"

section \<open>HyperTuner (kerastuner/engine/hypertuner.py)\<close>

datatype direction = Min | Max

text \<open>
  A Keras model as the tuner sees it: its configuration, and everything else it holds
  (weights, optimizer state) as \<open>weights\<close>.
\<close>

record 'w keras_model =
  get_config :: pyval
  weights :: 'w

text \<open>
  The object \<open>Instance(model, idx, self.model_name, self.num_gpu, self.gpu_mem,
  self.display_model)\<close> that \<open>get_random_instance\<close> builds, by the six arguments of the call.
\<close>

record 'w tuner_instance =
  inst_model :: "'w keras_model"
  inst_idx :: string
  inst_model_name :: string
  inst_num_gpu :: int
  inst_gpu_mem :: int
  inst_display_model :: string

definition Instance ::
  "'w keras_model \<Rightarrow> string \<Rightarrow> string \<Rightarrow> int \<Rightarrow> int \<Rightarrow> string \<Rightarrow> 'w tuner_instance" where
  "Instance model idx mname ngpu gmem dm =
     \<lparr>inst_model = model, inst_idx = idx, inst_model_name = mname, inst_num_gpu = ngpu,
      inst_gpu_mem = gmem, inst_display_model = dm\<rparr>"

text \<open>
  The fields of \<open>HyperTuner\<close> that the modelled methods read or write.
  \<open>current_instance_idx\<close> is \<open>None\<close> for the initial \<open>-1\<close>.  \<open>key_metrics\<close> holds the
  \<open>(metric_name, direction)\<close> pairs the constructor kept, \<open>stats\<close> the best value per name.
\<close>

record 'w hypertuner =
  max_fail_streak :: int
  num_gpu :: int
  gpu_mem :: int
  model_name :: string
  display_model :: string
  invalid_models :: int
  collisions :: int
  instances :: "string \<rightharpoonup> 'w tuner_instance"
  current_instance_idx :: "string option"
  key_metrics :: "(string \<times> direction) list"
  stats :: "string \<rightharpoonup> real"

text \<open>
  \<^verbatim>\<open>
  def __compute_model_id(self, model):
      return xxh64(str(model.get_config())).hexdigest()
  \<close>
\<close>

definition compute_model_id :: "'w hypertuner \<Rightarrow> 'w keras_model \<Rightarrow> string" where
  "compute_model_id self model = hexdigest (xxh64 (py_str (get_config model)))"

text \<open>
  \<^verbatim>\<open>
  def get_random_instance(self):
      fail_streak = 0
      while 1:
          fail_streak += 1
          try:
              model = self.model_fn()
          except:
              self.invalid_models += 1
              if self.invalid_models >= self.max_fail_streak:
                  return None
              continue
          idx = self.__compute_model_id(model)
          if idx not in self.instances:
              break
          self.collisions += 1
      self.instances[idx] = Instance(model, idx, self.model_name, self.num_gpu,
                                     self.gpu_mem, self.display_model)
      self.current_instance_idx = idx
      return self.instances[idx]
  \<close>
  \<open>model_fn\<close> samples: it reads a hidden state \<open>'r\<close> (the random generator) and returns a
  model, or \<open>None\<close> when it raised, with the new hidden state.  One pass of the loop, from
  the state \<open>(fail_streak, r, self)\<close>, either ends the call (\<open>Inl\<close>, with what the call
  returns and the tuner as it leaves it) or goes round again (\<open>Inr\<close>).
\<close>

type_synonym ('r, 'w) gri_state = "int \<times> 'r \<times> 'w hypertuner"
type_synonym ('r, 'w) gri_result = "'w tuner_instance option \<times> 'r \<times> 'w hypertuner"

definition get_random_instance_body ::
  "('r \<Rightarrow> 'w keras_model option \<times> 'r) \<Rightarrow> ('r, 'w) gri_state
     \<Rightarrow> ('r, 'w) gri_result + ('r, 'w) gri_state" where
  "get_random_instance_body model_fn s =
     (case s of (fail_streak, r, self) \<Rightarrow>
        let fail_streak = fail_streak + 1
        in case model_fn r of
             (None, r') \<Rightarrow>
               let self = self\<lparr>invalid_models := invalid_models self + 1\<rparr>
               in if max_fail_streak self \<le> invalid_models self
                  then Inl (None, r', self)
                  else Inr (fail_streak, r', self)
           | (Some model, r') \<Rightarrow>
               let idx = compute_model_id self model
               in if idx \<notin> dom (instances self)
                  then let inst = Instance model idx (model_name self) (num_gpu self)
                                    (gpu_mem self) (display_model self);
                           self = self\<lparr>instances := (instances self)(idx \<mapsto> inst),
                                       current_instance_idx := Some idx\<rparr>
                       in Inl (Some inst, r', self)
                  else Inr (fail_streak, r', self\<lparr>collisions := collisions self + 1\<rparr>))"

text \<open>
  The \<open>while 1\<close> loop.  It has no bound of its own, so it is a partial function: the value
  \<open>None\<close> of the loop means that the call never returns.
\<close>

partial_function (option) get_random_instance_loop ::
  "('r \<Rightarrow> 'w keras_model option \<times> 'r) \<Rightarrow> ('r, 'w) gri_state
     \<Rightarrow> ('r, 'w) gri_result option" where
  "get_random_instance_loop model_fn s =
     (case get_random_instance_body model_fn s of
        Inl res \<Rightarrow> Some res
      | Inr s' \<Rightarrow> get_random_instance_loop model_fn s')"

definition get_random_instance ::
  "('r \<Rightarrow> 'w keras_model option \<times> 'r) \<Rightarrow> 'r \<Rightarrow> 'w hypertuner
     \<Rightarrow> ('r, 'w) gri_result option" where
  "get_random_instance model_fn r self = get_random_instance_loop model_fn (0, r, self)"

text \<open>
  \<open>resampled model_fn n s\<close> is the loop state after \<open>n\<close> passes from \<open>s\<close> that all went
  round again (a collision, or an invalid model below the limit), if there are that many.
\<close>

fun resampled ::
  "('r \<Rightarrow> 'w keras_model option \<times> 'r) \<Rightarrow> nat \<Rightarrow> ('r, 'w) gri_state
     \<Rightarrow> ('r, 'w) gri_state option" where
  "resampled model_fn 0 s = Some s"
| "resampled model_fn (Suc n) s =
     (case get_random_instance_body model_fn s of
        Inl res \<Rightarrow> None
      | Inr s' \<Rightarrow> resampled model_fn n s')"

text \<open>
  A tuner that has already trained the one model its \<open>model_fn\<close> can build: the test
  suite's \<open>MockModel\<close>, whose \<open>get_config()\<close> is \<open>{}\<close>.
\<close>

definition mock_model :: "nat keras_model" where
  "mock_model = \<lparr>get_config = PyDict [], weights = 0\<rparr>"


definition seen_tuner :: "nat hypertuner" where
  "seen_tuner =
     \<lparr>max_fail_streak = 20, num_gpu = - 1, gpu_mem = - 1, model_name = ''demo'',
      display_model = [], invalid_models = 0, collisions = 0,
      instances = [''2e1472b57af294d1'' \<mapsto>
                     Instance mock_model ''2e1472b57af294d1'' ''demo'' (- 1) (- 1) []],
      current_instance_idx = Some ''2e1472b57af294d1'',
      key_metrics = [], stats = Map.empty\<rparr>"



definition invalid_model_fn :: "nat \<Rightarrow> nat keras_model option \<times> nat" where
  "invalid_model_fn r = (None, r + 1)"












section \<open>Instance (kerastuner/engine/instance.py)\<close>


text \<open>A dictionary with the two keys \<open>'min'\<close> and \<open>'max'\<close>, and the entry a direction selects.\<close>

record 'a by_direction =
  of_min :: 'a
  of_max :: 'a


text \<open>
  What \<open>Instance\<close> reads of an \<open>InstanceExecution\<close> (engine/execution.py): the number of
  epochs run, the history, the start time and \<open>metrics\<close>, which maps every metric name to
  its minimum and maximum over the epochs of that execution.  The Keras model of an
  execution, which \<open>record_results\<close> only copies into the document and the saved files, is
  left out.
\<close>

record 'h execution =
  num_epochs :: int
  execution_history :: 'h
  execution_ts :: int
  execution_metrics :: "(string \<times> real by_direction) list"







subsection \<open>Instance.record_results\<close>












subsection \<open>Instance.fit\<close>











section \<open>MultipleExecutionsTuner (kerastuner/tuners/multiple_executions_tuner.py)\<close>

text \<open>
  An objective is a metric name, an \<open>Objective\<close> (name and direction), or a list or a tuple
  of objectives.
\<close>

datatype objective =
    ObjName string
  | Objective string direction
  | ObjList "objective list"
  | ObjTuple "objective list"

text \<open>\<open>isinstance(objective, (list, tuple))\<close>\<close>

fun is_list_or_tuple :: "objective \<Rightarrow> bool" where
  "is_list_or_tuple (ObjList os) = True"
| "is_list_or_tuple (ObjTuple os) = True"
| "is_list_or_tuple _ = False"

text \<open>The oracle a tuner is built on: an \<open>Oracle\<close> that also carries its objective.\<close>

record 'a tuner_oracle = "'a Oracle" +
  objective :: objective

text \<open>
  The tuner object: the state the base class \<open>Tuner\<close> set up, and the two attributes this
  class adds.  \<open>executions_per_trial\<close> is whatever Python value the caller passed, \<open>1\<close> by
  default.
\<close>

record 'b multiple_executions_tuner =
  tuner_base :: 'b
  executions_per_trial :: pyval
  reported_step :: int

text \<open>
  \<^verbatim>\<open>
  def __init__(self, oracle, hypermodel, executions_per_trial=1, **kwargs):
      super(MultipleExecutionsTuner, self).__init__(oracle, hypermodel, **kwargs)
      if isinstance(oracle.objective, (list, tuple)):
          raise ValueError(
              'Multi-objective is not supported, found: {}'.format(oracle.objective))
      self.executions_per_trial = executions_per_trial
      self._reported_step = 0
  \<close>
  The constructor of the base class (engine/tuner.py) is the parameter \<open>Tuner_init\<close>; it may
  raise.
\<close>

definition MultipleExecutionsTuner_init ::
  "('a tuner_oracle \<Rightarrow> 'm \<Rightarrow> 'k \<Rightarrow> py_error + 'b)
     \<Rightarrow> 'a tuner_oracle \<Rightarrow> 'm \<Rightarrow> pyval \<Rightarrow> 'k \<Rightarrow> py_error + 'b multiple_executions_tuner" where
  "MultipleExecutionsTuner_init Tuner_init oracle hypermodel per_trial kwargs =
     (case Tuner_init oracle hypermodel kwargs of
        Inl e \<Rightarrow> Inl e
      | Inr b \<Rightarrow>
          if is_list_or_tuple (objective oracle)
          then Inl (ValueError ''Multi-objective is not supported'')
          else Inr \<lparr>tuner_base = b, executions_per_trial = per_trial, reported_step = 0\<rparr>)"

text \<open>
  The names the module binds at import time: its \<open>from\<close> and \<open>import\<close> statements and its
  class.  Neither \<open>copy\<close> nor \<open>np\<close> is among them.
\<close>

definition module_globals :: "string set" where
  "module_globals =
     {''absolute_import'', ''division'', ''print_function'', ''trial_lib'', ''tuner_module'',
      ''oracle_module'', ''hp_module'', ''tf_utils'', ''collections'', ''random'', ''json'',
      ''keras'', ''MultipleExecutionsTuner''}"

text \<open>\<open>for v in obj\<close>: the items of a list, a tuple or a dictionary; an integer is not iterable.\<close>

fun py_iter :: "pyval \<Rightarrow> py_error + pyval list" where
  "py_iter (PyList xs) = Inr xs"
| "py_iter (PyTuple xs) = Inr xs"
| "py_iter (PyDict kvs) = Inr (map (\<lambda>kv. PyStr (fst kv)) kvs)"
| "py_iter (PyStr s) = Inr (map (\<lambda>c. PyStr [c]) s)"
| "py_iter (PyInt i) = Inl (TypeError ''int object is not iterable'')"
| "py_iter (PyBool b) = Inl (TypeError ''bool object is not iterable'')"
| "py_iter PyNone = Inl (TypeError ''NoneType object is not iterable'')"

text \<open>
  \<^verbatim>\<open>
  for metric, epoch_values in history.history:
      metrics[metrics].append(epoch_values[-1])
  \<close>
  Iterating the dictionary \<open>history.history\<close> yields its keys.  A key that is not a string of
  two characters cannot be unpacked into two names; after a key that can, the subscript
  \<open>metrics[metrics]\<close> uses the dictionary itself as a key, which is not hashable.  So the
  loop passes only over an empty history.
\<close>

definition collect_history :: "(string \<times> real list) list \<Rightarrow> py_error + unit" where
  "collect_history history =
     (case history of
        [] \<Rightarrow> Inr ()
      | (key, epoch_values) # rest \<Rightarrow>
          if length key \<noteq> 2 then Inl (ValueError ''not enough or too many values to unpack'')
          else Inl (TypeError ''unhashable type: defaultdict''))"

text \<open>
  \<^verbatim>\<open>
  for execution in self.executions_per_trial:
      model = self._build_model(trial.hyperparameters.copy())
      self._compile_model(model)
      history = model.fit(*fit_args, **fit_kwargs)
      for metric, epoch_values in history.history: ...
  \<close>
  Building, compiling and fitting one model is the parameter \<open>build_and_fit\<close>, which returns
  \<open>history.history\<close> or raises.
\<close>

fun run_executions ::
  "('t \<Rightarrow> 'c \<Rightarrow> py_error + (string \<times> real list) list) \<Rightarrow> 't \<Rightarrow> 'c \<Rightarrow> pyval list
     \<Rightarrow> py_error + unit" where
  "run_executions build_and_fit trial callbacks [] = Inr ()"
| "run_executions build_and_fit trial callbacks (execution # rest) =
     (case build_and_fit trial callbacks of
        Inl e \<Rightarrow> Inl e
      | Inr history \<Rightarrow>
          (case collect_history history of
             Inl e \<Rightarrow> Inl e
           | Inr u \<Rightarrow> run_executions build_and_fit trial callbacks rest))"

text \<open>
  \<^verbatim>\<open>
  def run_trial(self, trial, *fit_args, **fit_kwargs):
      fit_kwargs = copy.copy(fit_kwargs)
      original_callbacks = fit_kwargs.get('callbacks', [])[:]
      fit_kwargs['callbacks'] = self._inject_callbacks(original_callbacks, trial)
      metrics = collections.defaultdict(list)
      for execution in self.executions_per_trial:
          ...
      averaged_metrics = {}
      for metric, execution_values in metrics:
          averaged_metrics[metric] = np.mean(execution_values)
      self.oracle.update_trial(
          trial.trial_id, metrics=averaged_metrics, step=self._reported_step)
  \<close>
  \<open>globals\<close> is the set of names bound in the module when the method runs.  When the first
  loop ends without raising, \<open>metrics\<close> is still empty, so the second loop does nothing and
  the metrics reported are the empty dictionary.  A call that returns gives the arguments of
  its \<open>update_trial\<close>: the trial, the averaged metrics and the step.
\<close>

definition run_trial ::
  "string set \<Rightarrow> ('c \<Rightarrow> 't \<Rightarrow> 'c) \<Rightarrow> ('t \<Rightarrow> 'c \<Rightarrow> py_error + (string \<times> real list) list)
     \<Rightarrow> 'b multiple_executions_tuner \<Rightarrow> 't \<Rightarrow> 'c
     \<Rightarrow> py_error + 't \<times> (string \<times> real) list \<times> int" where
  "run_trial globals inject_callbacks build_and_fit self trial original_callbacks =
     (if ''copy'' \<notin> globals then Inl (NameError ''copy'')
      else let callbacks = inject_callbacks original_callbacks trial
           in if ''collections'' \<notin> globals then Inl (NameError ''collections'')
              else case py_iter (executions_per_trial self) of
                     Inl e \<Rightarrow> Inl e
                   | Inr runs \<Rightarrow>
                       (case run_executions build_and_fit trial callbacks runs of
                          Inl e \<Rightarrow> Inl e
                        | Inr u \<Rightarrow> Inr (trial, [], reported_step self)))"

section \<open>Properties of Oracle.update_space\<close>

lemma update_space_fold:
  "space (fold (\<lambda>p self. if name p \<notin> R then self\<lparr>space := space self @ [p]\<rparr> else self) ps s)
     = space s @ filter (\<lambda>p. name p \<notin> R) ps"
  by (induction ps arbitrary: s) auto

lemma update_space_eq:
  "space (update_space self new_entries)
     = space self @ filter (\<lambda>p. name p \<notin> set (map name (space self))) new_entries"
  unfolding update_space_def Let_def by (rule update_space_fold)

text \<open>
  C9, as the code has it.  \<open>update_space\<close> appends exactly the entries of \<open>new_entries\<close>
  whose name was not tracked before the call, in their given order, behind the unchanged old
  space (nothing is overwritten or removed).  The names of the new space are pairwise
  distinct exactly when the old names were and the appended entries have pairwise distinct
  names: uniqueness is preserved only for such \<open>new_entries\<close>.
\<close>

theorem update_space_appends_untracked:
  "space (update_space self new_entries)
     = space self @ filter (\<lambda>p. name p \<notin> set (map name (space self))) new_entries
   \<and> (distinct (map name (space (update_space self new_entries)))
        \<longleftrightarrow> distinct (map name (space self))
            \<and> distinct (map name
                  (filter (\<lambda>p. name p \<notin> set (map name (space self))) new_entries)))"
  by (auto simp: update_space_eq) (metis image_eqI)

theorem update_space_appends_untracked_witness:
  "space (update_space \<lparr>space = [\<lparr>name = ''units'', hp_spec = (1::nat)\<rparr>]\<rparr>
            [\<lparr>name = ''units'', hp_spec = 2\<rparr>, \<lparr>name = ''rate'', hp_spec = 3\<rparr>])
     = [\<lparr>name = ''units'', hp_spec = 1\<rparr>, \<lparr>name = ''rate'', hp_spec = 3\<rparr>]
   \<and> distinct (map name (space (update_space \<lparr>space = [\<lparr>name = ''units'', hp_spec = (1::nat)\<rparr>]\<rparr>
            [\<lparr>name = ''units'', hp_spec = 2\<rparr>, \<lparr>name = ''rate'', hp_spec = 3\<rparr>])))"
  using update_space_appends_untracked
          [of "\<lparr>space = [\<lparr>name = ''units'', hp_spec = (1::nat)\<rparr>]\<rparr>"
              "[\<lparr>name = ''units'', hp_spec = 2\<rparr>, \<lparr>name = ''rate'', hp_spec = 3\<rparr>]"]
  by simp

text \<open>
  C9, as the claim states it, fails: two new entries that share a name not yet tracked are
  both appended, so the names of the space do not remain unique after every call.
\<close>

theorem update_space_duplicate_names:
  "distinct (map name (space \<lparr>space = ([] :: unit hyperparameter list)\<rparr>))
   \<and> \<not> distinct (map name (space (update_space \<lparr>space = []\<rparr>
          [\<lparr>name = ''units'', hp_spec = ()\<rparr>, \<lparr>name = ''units'', hp_spec = ()\<rparr>])))"
  by (simp add: update_space_def)

section \<open>Properties of compute_max_batch_size\<close>

lemma compute_batch_size_loop_bound:
  "\<exists>b' n'. compute_batch_size_loop model memory max_size b (Some n) = Inr (b', n')"
proof (induction model memory max_size b "Some n" arbitrary: n
        rule: compute_batch_size_loop.induct)
  case (1 model memory max_size batch_size)
  show ?case
    apply (subst compute_batch_size_loop.simps)
    using 1 apply (auto simp: Let_def return_batch_size_def split: prod.splits)
    done
qed

lemma compute_max_batch_size_cases:
  "compute_max_batch_size model mem max_size =
     (if 18 < max_size then Inr None else Inl (UnboundLocalError ''model_num_params''))"
proof (cases "18 < max_size")
  case True
  obtain g n where g: "get_model_memory_usage model 18 = (g, n)" by force
  from compute_batch_size_loop_bound[of model mem max_size 18 n] obtain b' n' where
    "compute_batch_size_loop model mem max_size 18 (Some n) = Inr (b', n')" by blast
  with True g show ?thesis
    by (simp add: compute_max_batch_size_def compute_batch_size_def return_batch_size_def)
next
  case False
  then show ?thesis
    by (simp add: compute_max_batch_size_def compute_batch_size_def return_batch_size_def)
qed

text \<open>
  C10.  For every model and every \<open>gpu_mem\<close> (here \<open>mem\<close>), \<open>compute_max_batch_size\<close> with the default
  \<open>max_size\<close> returns \<open>None\<close>; with any \<open>max_size\<close> it returns \<open>None\<close> or (when
  \<open>max_size \<le> 18\<close>, where the helper's own \<open>return\<close> fails) raises, so no call hands the
  computed batch size \<open>b\<close> to its caller.  The helper does terminate with a batch size:
  \<open>Inr None\<close> is a return of the public function, not a divergence of the loop.
\<close>

theorem compute_max_batch_size_returns_None:
  "compute_max_batch_size model mem default_max_size = Inr None
   \<and> compute_max_batch_size model mem max_size \<noteq> Inr (Some b)
   \<and> compute_max_batch_size model mem max_size =
       (if 18 < max_size then Inr None else Inl (UnboundLocalError ''model_num_params''))"
  by (simp add: compute_max_batch_size_cases default_max_size_def)

theorem compute_max_batch_size_returns_None_witness:
  "compute_max_batch_size
     \<lparr>layers = [\<lparr>output_shape = [None, Some 20]\<rparr>, \<lparr>output_shape = [None, Some 1]\<rparr>],
      trainable_weights = [\<lparr>wid = 0, count_params = 400\<rparr>, \<lparr>wid = 1, count_params = 21\<rparr>],
      non_trainable_weights = []\<rparr> 8 default_max_size = Inr None"
  by (rule compute_max_batch_size_returns_None [THEN conjunct1])

section \<open>Properties of the configuration identity\<close>

text \<open>The digest of known inputs, as the xxhash package documents them.\<close>

lemma xxh64_test_vectors:
  "hexdigest (xxh64 []) = ''ef46db3751d8e999''"
  "hexdigest (xxh64 ''a'') = ''d24ec4f1a98c6e5b''"
  "hexdigest (xxh64 ''xxhash'') = ''32dd38952c4bc720''"
  by code_simp+




section \<open>Properties of get_random_instance\<close>

lemma loop_resampled:
  "resampled model_fn n s = Some s' \<Longrightarrow>
   get_random_instance_loop model_fn s = get_random_instance_loop model_fn s'"
proof (induction n arbitrary: s)
  case 0
  then show ?case by simp
next
  case (Suc n)
  then obtain s1 where b: "get_random_instance_body model_fn s = Inr s1"
    and r: "resampled model_fn n s1 = Some s'"
    by (auto split: sum.splits)
  have "get_random_instance_loop model_fn s = get_random_instance_loop model_fn s1"
    by (subst get_random_instance_loop.simps) (simp add: b)
  with Suc.IH[OF r] show ?case by simp
qed

lemma loop_ends:
  "resampled model_fn n (0, r0, self0) = Some s \<Longrightarrow>
   get_random_instance_body model_fn s = Inl res \<Longrightarrow>
   get_random_instance model_fn r0 self0 = Some res"
proof -
  assume r: "resampled model_fn n (0, r0, self0) = Some s"
    and b: "get_random_instance_body model_fn s = Inl res"
  have "get_random_instance_loop model_fn s = Some res"
    by (subst get_random_instance_loop.simps) (simp add: b)
  with loop_resampled[OF r] show ?thesis
    by (simp add: get_random_instance_def)
qed







text \<open>
  C6.  At whichever pass of the loop \<open>model_fn\<close> raises and the count of invalid models,
  with this one, reaches \<open>max_fail_streak\<close>, the call returns \<open>None\<close>: it returns (the
  result is \<open>Some\<close>), the value returned is Python's \<open>None\<close> and not an instance, and the
  tuner is left with the incremented count.  Nothing is raised.
\<close>

theorem get_random_instance_limit_returns_None:
  assumes "resampled model_fn n (0, r0, self0) = Some (fail_streak, r, self)"
    and "model_fn r = (None, r')"
    and "max_fail_streak self \<le> invalid_models self + 1"
  shows "get_random_instance model_fn r0 self0
           = Some (None, r', self\<lparr>invalid_models := invalid_models self + 1\<rparr>)"
  using assms(2,3)
  by (intro loop_ends[OF assms(1)]) (simp add: get_random_instance_body_def Let_def)

lemma invalid_resampled:
  "resampled invalid_model_fn (Suc 0) (0, 0, seen_tuner\<lparr>max_fail_streak := 2\<rparr>)
     = Some (1, 1, seen_tuner\<lparr>max_fail_streak := 2, invalid_models := 1\<rparr>)"
  by (simp add: get_random_instance_body_def invalid_model_fn_def seen_tuner_def Let_def)

theorem get_random_instance_limit_returns_None_witness:
  "get_random_instance invalid_model_fn 0 (seen_tuner\<lparr>max_fail_streak := 2\<rparr>)
     = Some (None, 2, seen_tuner\<lparr>max_fail_streak := 2, invalid_models := 2\<rparr>)"
proof -
  have m: "invalid_model_fn 1 = (None, 2)"
    by (simp add: invalid_model_fn_def)
  have l: "max_fail_streak (seen_tuner\<lparr>max_fail_streak := 2, invalid_models := 1\<rparr>)
             \<le> invalid_models (seen_tuner\<lparr>max_fail_streak := 2, invalid_models := 1\<rparr>) + 1"
    by simp
  from get_random_instance_limit_returns_None [OF invalid_resampled m l]
  show ?thesis by simp
qed

section \<open>Properties of HyperTuner.record_results\<close>






section \<open>Properties of Instance.record_results\<close>














section \<open>Properties of Instance.fit\<close>





section \<open>Properties of MultipleExecutionsTuner\<close>

text \<open>
  C8.  With an objective that is a list or a tuple, the constructor never returns a tuner:
  it raises.  What it raises is the \<open>ValueError\<close> of the multi-objective check whenever the
  constructor of the base class, which runs first, has accepted the arguments.
\<close>

theorem MultipleExecutionsTuner_init_rejects_multi_objective:
  "is_list_or_tuple (objective oracle) \<Longrightarrow>
     (\<forall>t. MultipleExecutionsTuner_init Tuner_init oracle hypermodel per_trial kwargs \<noteq> Inr t)
   \<and> (\<forall>b. Tuner_init oracle hypermodel kwargs = Inr b \<longrightarrow>
          MultipleExecutionsTuner_init Tuner_init oracle hypermodel per_trial kwargs
            = Inl (ValueError ''Multi-objective is not supported''))"
  by (auto simp: MultipleExecutionsTuner_init_def split: sum.splits)

theorem MultipleExecutionsTuner_init_rejects_multi_objective_witness:
  "MultipleExecutionsTuner_init (\<lambda>oracle hypermodel kwargs. Inr ())
     \<lparr>space = ([] :: unit hyperparameter list),
      objective = ObjList [ObjName ''val_loss'', ObjName ''val_acc'']\<rparr> () (PyInt 1) ()
   = Inl (ValueError ''Multi-objective is not supported'')"
  using MultipleExecutionsTuner_init_rejects_multi_objective
          [of "\<lparr>space = ([] :: unit hyperparameter list),
                objective = ObjList [ObjName ''val_loss'', ObjName ''val_acc'']\<rparr>"
              "\<lambda>oracle hypermodel kwargs. Inr ()" "()" "PyInt 1" "()"]
  by simp

text \<open>
  C3 fails on the code.  \<open>run_trial\<close> raises \<open>NameError\<close> at its first statement, for every
  tuner, trial and training arguments, since the module never imports \<open>copy\<close>; and were
  \<open>copy\<close> bound, a tuner with an integer \<open>executions_per_trial\<close> (the default is \<open>1\<close>) would
  raise \<open>TypeError\<close> at the head of the loop, before any model is built.  In neither case
  is anything reported to the oracle.
\<close>

theorem run_trial_raises:
  "run_trial module_globals inject_callbacks build_and_fit self trial callbacks
     = Inl (NameError ''copy'')
   \<and> run_trial (insert ''copy'' module_globals) inject_callbacks build_and_fit
       (self\<lparr>executions_per_trial := PyInt n\<rparr>) trial callbacks
     = Inl (TypeError ''int object is not iterable'')"
  by (simp add: run_trial_def module_globals_def)

end
